theory Spec2Isabelle
  imports Main
begin

section \<open>Failure classification and the retry engine (src/lib/api.ts)\<close>

text \<open>
  The error class of the client. \<open>statusCode\<close> and \<open>code\<close> are optional in the
  source (\<^verbatim>\<open>public statusCode?: number, public code?: string\<close>).
\<close>

record VeniceApiError =
  message :: string
  statusCode :: "nat option"
  code :: "string option"

text \<open>
  What \<open>fromResponse\<close> reads from a body that parses: \<open>json.error?.message\<close>,
  \<open>json.error?.code\<close> and \<open>json.message\<close>, each absent or present.
  \<open>JSON.parse\<close> belongs to the platform and is a parameter: \<open>envelope body = None\<close>
  when the try block of \<open>fromResponse\<close> throws on the body (a syntax error, or the
  value \<open>null\<close>, whose field access throws).
\<close>

record ErrorEnvelope =
  error_message :: "string option"
  error_code :: "string option"
  top_message :: "string option"

text \<open>The decimal digits of a number, as the template \<^verbatim>\<open>`HTTP ${status}`\<close> prints it.\<close>

fun decimal :: "nat \<Rightarrow> string" where
  "decimal n =
     (if n < 10 then [char_of (48 + n)]
      else decimal (n div 10) @ [char_of (48 + n mod 10)])"

declare decimal.simps [simp del]

text \<open>
  \<^verbatim>\<open>const message = json.error?.message || json.message || body;
  const code = json.error?.code;
  return new VeniceApiError(message, status, code);\<close>
  and in the catch clause
  \<^verbatim>\<open>return new VeniceApiError(body || `HTTP ${status}`, status);\<close>
  The empty string is falsy.
\<close>

definition fromResponse ::
  "(string \<Rightarrow> ErrorEnvelope option) \<Rightarrow> nat \<Rightarrow> string \<Rightarrow> VeniceApiError"
where
  "fromResponse envelope status body =
     (case envelope body of
        Some json \<Rightarrow>
          \<lparr>message =
             (case error_message json of
                Some m \<Rightarrow>
                  (if m \<noteq> [] then m
                   else (case top_message json of
                           Some m' \<Rightarrow> if m' \<noteq> [] then m' else body
                         | None \<Rightarrow> body))
              | None \<Rightarrow>
                  (case top_message json of
                     Some m' \<Rightarrow> if m' \<noteq> [] then m' else body
                   | None \<Rightarrow> body)),
           statusCode = Some status,
           code = error_code json\<rparr>
      | None \<Rightarrow>
          \<lparr>message = (if body \<noteq> [] then body else ''HTTP '' @ decimal status),
           statusCode = Some status,
           code = None\<rparr>)"

text \<open>
  \<^verbatim>\<open>if (!this.statusCode) return true;
  return this.statusCode >= 500 && this.statusCode < 600;\<close>
  The negation is JavaScript truthiness: an absent status and the status 0 are both
  falsy.
\<close>

definition isRetryable :: "VeniceApiError \<Rightarrow> bool" where
  "isRetryable e =
     (case statusCode e of
        None \<Rightarrow> True
      | Some s \<Rightarrow> if s = 0 then True else 500 \<le> s \<and> s < 600)"

definition isAuthError :: "VeniceApiError \<Rightarrow> bool" where
  "isAuthError e = (statusCode e = Some 401 \<or> statusCode e = Some 403)"

definition isRateLimited :: "VeniceApiError \<Rightarrow> bool" where
  "isRateLimited e = (statusCode e = Some 429)"

text \<open>
  The source has no enumeration of failure kinds: the kind of an error is the branch of
  the catch block of \<open>apiRequest\<close> that it selects. The three predicates are tested in
  this order (authentication, rate limit, retryable), and an error that passes none of
  them is rethrown at once.
\<close>

datatype FailureKind = AuthError | RateLimited | Transient | ClientError

definition classify :: "VeniceApiError \<Rightarrow> FailureKind" where
  "classify e =
     (if isAuthError e then AuthError
      else if isRateLimited e then RateLimited
      else if isRetryable e then Transient
      else ClientError)"

definition MAX_RETRIES :: nat where
  "MAX_RETRIES = 3"

definition RETRY_DELAY_MS :: nat where
  "RETRY_DELAY_MS = 1000"

text \<open>
  What the code throws: an API error, a plain \<open>Error\<close> with its message, or the
  \<open>SyntaxError\<close> of \<open>JSON.parse\<close> (with the text that did not parse).
\<close>

datatype thrown = ApiError VeniceApiError | Error string | SyntaxError string

definition auth_hint :: string where
  "auth_hint =
     ''Authentication failed. Please check your API key.'' @ [CHR 0x0A] @
     ''Update with: venice config set api_key <your-key>''"

definition offline_hint :: string where
  "offline_hint =
     ''Unable to connect to Venice API.'' @ [CHR 0x0A] @
     ''Please check your internet connection.''"

text \<open>
  The outcome of the try block of one attempt: the response was ok and its payload is
  returned; the response was not ok (its status and body go through \<open>fromResponse\<close>);
  or an \<open>Error\<close> that is not a \<open>VeniceApiError\<close> was thrown, which the source treats
  as a network error.
\<close>

datatype 'a attempt_result = Ok 'a | NotOk nat string | Rejected string

text \<open>
  The effects of the engine, in order: a request is sent, the connectivity probe
  \<open>checkOnline\<close> runs, the engine sleeps for a number of milliseconds. The spinner is
  display only and is left out.
\<close>

datatype effect = Attempt nat | Probe nat | Sleep nat

text \<open>
  The loop \<^verbatim>\<open>for (let attempt = 0; attempt <= retries; attempt++)\<close>.
  \<open>fetch n\<close> is what the n-th attempt meets and \<open>online n\<close> is what the probe
  answers at the n-th attempt; both belong to the environment, as does \<open>envelope\<close>.
\<close>

function apiRequest_loop ::
  "(string \<Rightarrow> ErrorEnvelope option) \<Rightarrow> (nat \<Rightarrow> 'a attempt_result) \<Rightarrow> (nat \<Rightarrow> bool) \<Rightarrow>
     nat \<Rightarrow> nat \<Rightarrow> VeniceApiError option \<Rightarrow> effect list \<Rightarrow> (thrown + 'a) \<times> effect list"
where
  "apiRequest_loop envelope fetch online retries attempt lastError trace =
     (if retries < attempt then
        (case lastError of
           Some e \<Rightarrow> (Inl (ApiError e), trace)
         | None \<Rightarrow> (Inl (Error ''Request failed after retries''), trace))
      else
        (case fetch attempt of
           Ok v \<Rightarrow> (Inr v, trace @ [Attempt attempt])
         | NotOk status body \<Rightarrow>
             (if isAuthError (fromResponse envelope status body) then
                (Inl (Error auth_hint), trace @ [Attempt attempt])
              else if isRateLimited (fromResponse envelope status body) then
                apiRequest_loop envelope fetch online retries (Suc attempt)
                  (Some (fromResponse envelope status body))
                  (trace @ [Attempt attempt, Sleep (RETRY_DELAY_MS * (attempt + 1) * 2)])
              else if isRetryable (fromResponse envelope status body) \<and> attempt < retries then
                apiRequest_loop envelope fetch online retries (Suc attempt)
                  (Some (fromResponse envelope status body))
                  (trace @ [Attempt attempt, Sleep (RETRY_DELAY_MS * (attempt + 1))])
              else (Inl (ApiError (fromResponse envelope status body)), trace @ [Attempt attempt]))
         | Rejected msg \<Rightarrow>
             (if attempt < retries then
                (if \<not> online attempt then
                   (Inl (Error offline_hint), trace @ [Attempt attempt, Probe attempt])
                 else
                   apiRequest_loop envelope fetch online retries (Suc attempt) lastError
                     (trace @ [Attempt attempt, Probe attempt,
                               Sleep (RETRY_DELAY_MS * (attempt + 1))]))
              else
                (Inl (ApiError \<lparr>message = msg, statusCode = None, code = None\<rparr>),
                 trace @ [Attempt attempt]))))"
  by pat_completeness auto
termination
  by (relation "measure (\<lambda>(envelope, fetch, online, retries, attempt, lastError, trace).
        Suc retries - attempt)") auto

declare apiRequest_loop.simps [simp del]

definition apiRequest ::
  "(string \<Rightarrow> ErrorEnvelope option) \<Rightarrow> (nat \<Rightarrow> 'a attempt_result) \<Rightarrow> (nat \<Rightarrow> bool) \<Rightarrow>
     nat \<Rightarrow> (thrown + 'a) \<times> effect list"
where
  "apiRequest envelope fetch online retries =
     apiRequest_loop envelope fetch online retries 0 None []"

text \<open>Scripted environments for concrete runs: the listed outcomes, then a default.\<close>

definition script :: "'a list \<Rightarrow> 'a \<Rightarrow> nat \<Rightarrow> 'a" where
  "script xs d n = (if n < length xs then xs ! n else d)"

section \<open>The tool dispatcher (src/lib/tools.ts)\<close>

text \<open>
  \<open>String.prototype.toLowerCase\<close> on the letters A to Z. No character outside that
  range lowers to one of the letters y, e or s, which is all that the approval test
  compares with.
\<close>

definition toLowerCase :: "string \<Rightarrow> string" where
  "toLowerCase s =
     map (\<lambda>c. if 65 \<le> (of_char c :: nat) \<and> (of_char c :: nat) \<le> 90
              then char_of ((of_char c :: nat) + 32) else c) s"

text \<open>
  \<open>promptForApproval\<close> prints the request and reads one line; the line the user types
  is the argument here.
  \<^verbatim>\<open>resolve(answer.toLowerCase() === 'y' || answer.toLowerCase() === 'yes')\<close>
\<close>

definition promptForApproval :: "string \<Rightarrow> bool" where
  "promptForApproval answer = (toLowerCase answer = ''y'' \<or> toLowerCase answer = ''yes'')"

text \<open>What a dispatch does to the outside: it asks the user, it runs a handler.\<close>

datatype 'j tool_event = Prompted string 'j | Invoked string 'j

text \<open>
  \<open>executeTool\<close>. The registry \<open>toolExecutors\<close> is a parameter: a handler takes the
  parsed arguments and returns its text (\<open>Inr\<close>) or throws (\<open>Inl\<close>, the thrown value
  as \<^verbatim>\<open>${error}\<close> prints it). \<open>ask nm args\<close> is the line the user types when asked
  about this call.
\<close>

definition executeTool ::
  "(string \<Rightarrow> ('j \<Rightarrow> string + string) option) \<Rightarrow> (string \<Rightarrow> 'j \<Rightarrow> string) \<Rightarrow>
     string \<Rightarrow> 'j \<Rightarrow> bool \<Rightarrow> string \<times> 'j tool_event list"
where
  "executeTool registry ask nm args interactive =
     (case registry nm of
        None \<Rightarrow> (''Unknown tool: '' @ nm, [])
      | Some executor \<Rightarrow>
          (if interactive \<and> \<not> promptForApproval (ask nm args) then
             (''Tool execution cancelled by user'', [Prompted nm args])
           else
             (case executor args of
                Inr res \<Rightarrow>
                  (res, (if interactive then [Prompted nm args] else []) @ [Invoked nm args])
              | Inl err \<Rightarrow>
                  (''Tool error: '' @ err,
                   (if interactive then [Prompted nm args] else []) @ [Invoked nm args]))))"

section \<open>Usage tracking (src/lib/config.ts)\<close>

record Usage =
  prompt_tokens :: nat
  completion_tokens :: nat
  total_tokens :: nat

text \<open>The entry handed to \<open>trackUsage\<close>; the timestamp is added by the sink.\<close>

record UsageEntry =
  ue_command :: string
  ue_model :: string
  ue_usage :: "Usage option"

text \<open>
  \<open>trackUsage\<close> loads the usage file, pushes the entry and writes the file back with
  \<open>fs.writeFileSync\<close> (after \<open>fs.mkdirSync\<close> in \<open>ensureConfigDir\<close>). Neither call is
  inside a try block, and no caller of \<open>trackUsage\<close> wraps it in one, so a file-system
  fault is thrown to the caller. The file system is the environment: \<open>sink entry\<close> is
  the message of the fault it raises for this entry, if any. The log lists the entries
  that were written.
\<close>

definition trackUsage ::
  "(UsageEntry \<Rightarrow> string option) \<Rightarrow> UsageEntry \<Rightarrow> UsageEntry list \<Rightarrow>
     string + UsageEntry list"
where
  "trackUsage sink entry log =
     (case sink entry of
        Some err \<Rightarrow> Inl err
      | None \<Rightarrow> Inr (log @ [entry]))"

section \<open>Messages and requests (src/types/index.ts)\<close>

datatype role = System | User | Assistant | Tool

record ToolCall =
  tc_id :: string
  tc_name :: string
  tc_arguments :: string

record Message =
  msg_role :: role
  msg_content :: string
  msg_tool_calls :: "ToolCall list option"
  msg_tool_call_id :: "string option"

text \<open>A tool definition is static data of the registry; its name stands for it.\<close>

type_synonym ToolDefinition = string

text \<open>
  The body of a chat request. \<open>req_tools\<close> is absent when no tools are offered
  (\<^verbatim>\<open>if (options.tools?.length)\<close>); \<open>tool_choice\<close> is then absent too and is
  \<open>auto\<close> otherwise.
\<close>

record ChatRequest =
  req_model :: string
  req_messages :: "Message list"
  req_stream :: bool
  req_tools :: "ToolDefinition list option"

definition default_model :: string where
  "default_model = ''llama-3.3-70b''"

definition make_request ::
  "Message list \<Rightarrow> string \<Rightarrow> ToolDefinition list option \<Rightarrow> bool \<Rightarrow> ChatRequest"
where
  "make_request msgs mdl tools stream =
     \<lparr>req_model = (if mdl = [] then default_model else mdl),
      req_messages = msgs,
      req_stream = stream,
      req_tools = (case tools of
                     None \<Rightarrow> None
                   | Some ts \<Rightarrow> if ts = [] then None else Some ts)\<rparr>"

section \<open>The streaming decoder (chatCompletionStream in src/lib/api.ts)\<close>

text \<open>
  \<open>String.prototype.split\<close> on the newline character: never empty, and the last
  element is the text after the last newline. (The split of the rest is never empty,
  so the first branch of the case below is never taken.)
\<close>

fun split_nl :: "string \<Rightarrow> string list" where
  "split_nl [] = [[]]"
| "split_nl (c # cs) =
     (if c = CHR 0x0A then [] # split_nl cs
      else (case split_nl cs of
              [] \<Rightarrow> [[c]]
            | l # ls \<Rightarrow> (c # l) # ls))"

text \<open>
  \<open>String.prototype.trim\<close>. Characters are code units below 256 here; the white
  space and line terminators of JavaScript in that range are the six below and the
  no-break space.
\<close>

definition is_space :: "char \<Rightarrow> bool" where
  "is_space c = ((of_char c :: nat) \<in> {9, 10, 11, 12, 13, 32, 160})"

definition trim :: "string \<Rightarrow> string" where
  "trim s = rev (dropWhile is_space (rev (dropWhile is_space s)))"

text \<open>
  What the decoder reads from one well-formed data record:
  \<open>json.choices?.[0]?.delta?.content\<close>, \<open>json.choices?.[0]?.delta?.tool_calls\<close>
  and \<open>json.usage\<close>, each absent or present. \<open>JSON.parse\<close> belongs to the platform
  and is a parameter of the decoder: \<open>parse d = None\<close> when the try block around it
  throws on the payload \<open>d\<close> (a syntax error, or the value \<open>null\<close>, whose field access
  throws).
\<close>

record StreamRecord =
  delta_content :: "string option"
  delta_tool_calls :: "ToolCall list option"
  record_usage :: "Usage option"

text \<open>What the generator yields.\<close>

record StreamChunk =
  chunk_content :: "string option"
  chunk_tool_calls :: "ToolCall list option"
  chunk_usage :: "Usage option"
  chunk_done :: bool

definition content_chunk :: "string \<Rightarrow> StreamChunk" where
  "content_chunk c =
     \<lparr>chunk_content = Some c, chunk_tool_calls = None, chunk_usage = None,
      chunk_done = False\<rparr>"

definition tool_calls_chunk :: "ToolCall list \<Rightarrow> StreamChunk" where
  "tool_calls_chunk tcs =
     \<lparr>chunk_content = None, chunk_tool_calls = Some tcs, chunk_usage = None,
      chunk_done = False\<rparr>"

definition done_chunk :: "Usage option \<Rightarrow> StreamChunk" where
  "done_chunk u =
     \<lparr>chunk_content = None, chunk_tool_calls = None, chunk_usage = u,
      chunk_done = True\<rparr>"

text \<open>
  The chunks one well-formed record yields: \<^verbatim>\<open>if (delta?.content)\<close> is false for the
  empty string, \<^verbatim>\<open>if (delta?.tool_calls)\<close> is true for every array.
\<close>

definition record_chunks :: "StreamRecord \<Rightarrow> StreamChunk list" where
  "record_chunks json =
     (case delta_content json of
        None \<Rightarrow> []
      | Some c \<Rightarrow> if c = [] then [] else [content_chunk c]) @
     (case delta_tool_calls json of
        None \<Rightarrow> []
      | Some tcs \<Rightarrow> [tool_calls_chunk tcs])"

definition is_data_line :: "string \<Rightarrow> bool" where
  "is_data_line line = (take 6 line = ''data: '')"

definition payload :: "string \<Rightarrow> string" where
  "payload line = trim (drop 6 line)"

definition is_done_line :: "string \<Rightarrow> bool" where
  "is_done_line line = (is_data_line line \<and> payload line = ''[DONE]'')"

text \<open>
  How the inner loop over the lines of one read ends: it ran through them, the
  generator returned at the sentinel, or \<open>trackUsage\<close> threw.
\<close>

datatype line_status = Running | Returned | Threw thrown

text \<open>
  The loop \<^verbatim>\<open>for (const line of lines)\<close>, with the state it works on: the latest
  usage totals, the chunks yielded so far and the usage log.
\<close>

fun process_lines ::
  "(string \<Rightarrow> StreamRecord option) \<Rightarrow> (UsageEntry \<Rightarrow> string option) \<Rightarrow> string \<Rightarrow>
     string list \<Rightarrow> Usage option \<Rightarrow> StreamChunk list \<Rightarrow> UsageEntry list \<Rightarrow>
     line_status \<times> Usage option \<times> StreamChunk list \<times> UsageEntry list"
where
  "process_lines parse sink mdl [] totalUsage out log = (Running, totalUsage, out, log)"
| "process_lines parse sink mdl (line # rest) totalUsage out log =
     (if is_data_line line then
        (if payload line = ''[DONE]'' then
           (case totalUsage of
              Some u \<Rightarrow>
                (case trackUsage sink
                        \<lparr>ue_command = ''chat'', ue_model = mdl, ue_usage = Some u\<rparr> log of
                   Inl err \<Rightarrow> (Threw (Error err), totalUsage, out, log)
                 | Inr log' \<Rightarrow> (Returned, totalUsage, out @ [done_chunk totalUsage], log'))
            | None \<Rightarrow> (Returned, totalUsage, out @ [done_chunk totalUsage], log))
         else
           (case parse (payload line) of
              None \<Rightarrow> process_lines parse sink mdl rest totalUsage out log
            | Some json \<Rightarrow>
                process_lines parse sink mdl rest
                  (case record_usage json of Some u \<Rightarrow> Some u | None \<Rightarrow> totalUsage)
                  (out @ record_chunks json) log))
      else process_lines parse sink mdl rest totalUsage out log)"

text \<open>
  The loop \<^verbatim>\<open>while (true)\<close> over the reads of the transport, which ends with the
  stream. The reads are the decoded text of each chunk. The text left in the buffer when
  the stream ends is dropped, and the generator yields its last chunk.
\<close>

fun read_loop ::
  "(string \<Rightarrow> StreamRecord option) \<Rightarrow> (UsageEntry \<Rightarrow> string option) \<Rightarrow> string \<Rightarrow>
     string list \<Rightarrow> string \<Rightarrow> Usage option \<Rightarrow> StreamChunk list \<Rightarrow> UsageEntry list \<Rightarrow>
     thrown option \<times> StreamChunk list \<times> UsageEntry list"
where
  "read_loop parse sink mdl [] buffer totalUsage out log =
     (None, out @ [done_chunk totalUsage], log)"
| "read_loop parse sink mdl (chunk # reads) buffer totalUsage out log =
     (case process_lines parse sink mdl (butlast (split_nl (buffer @ chunk)))
             totalUsage out log of
        (Running, totalUsage', out', log') \<Rightarrow>
          read_loop parse sink mdl reads (last (split_nl (buffer @ chunk)))
            totalUsage' out' log'
      | (Returned, totalUsage', out', log') \<Rightarrow> (None, out', log')
      | (Threw e, totalUsage', out', log') \<Rightarrow> (Some e, out', log'))"

text \<open>
  \<open>decode\<close> is the generator from the point where it has a reader: the chunks it
  yields, what it throws after them (if anything) and the usage log.
\<close>

definition decode ::
  "(string \<Rightarrow> StreamRecord option) \<Rightarrow> (UsageEntry \<Rightarrow> string option) \<Rightarrow> string \<Rightarrow>
     string list \<Rightarrow> UsageEntry list \<Rightarrow> thrown option \<times> StreamChunk list \<times> UsageEntry list"
where
  "decode parse sink mdl reads log = read_loop parse sink mdl reads [] None [] log"

section \<open>Chat completions (src/lib/api.ts)\<close>

text \<open>The body of a non-streamed response, as far as \<open>chatCompletion\<close> reads it.\<close>

record Choice =
  choice_content :: "string option"
  choice_tool_calls :: "ToolCall list option"
  choice_finish_reason :: "string option"

record ChatResponse =
  resp_choices :: "Choice list"
  resp_usage :: "Usage option"

text \<open>What \<open>chatCompletion\<close> returns.\<close>

record Completion =
  content :: string
  tool_calls :: "ToolCall list option"
  usage :: "Usage option"
  finish_reason :: string

text \<open>
  The environment of an exchange. \<open>post_json\<close> and \<open>post_stream\<close> are the calls of
  \<open>apiRequest\<close> on the chat endpoint, as functions of the request body: what the call
  throws, or the parsed body, or the reads of the response stream (\<open>None\<close> when the
  response has no body). \<open>parse_record\<close> and \<open>parse_args\<close> are \<open>JSON.parse\<close> on
  a stream record and on the arguments of a tool call. \<open>usage_sink\<close>, \<open>registry\<close>
  and \<open>ask\<close> are as above.
\<close>

record 'j env =
  post_json :: "ChatRequest \<Rightarrow> thrown + ChatResponse"
  post_stream :: "ChatRequest \<Rightarrow> thrown + string list option"
  parse_record :: "string \<Rightarrow> StreamRecord option"
  parse_args :: "string \<Rightarrow> 'j option"
  usage_sink :: "UsageEntry \<Rightarrow> string option"
  registry :: "string \<Rightarrow> ('j \<Rightarrow> string + string) option"
  ask :: "string \<Rightarrow> 'j \<Rightarrow> string"

text \<open>
  The state an exchange works on: the caller's message array (mutated in place by the
  chat loops), the requests sent so far, the content written to the output, the usage
  log and the dispatcher's events.
\<close>

record 'j chat_state =
  messages :: "Message list"
  requests :: "ChatRequest list"
  printed :: "string list"
  usage_log :: "UsageEntry list"
  tool_events :: "'j tool_event list"

definition completion_of :: "ChatResponse \<Rightarrow> Completion" where
  "completion_of response =
     (case resp_choices response of
        [] \<Rightarrow>
          \<lparr>content = [], tool_calls = None, usage = resp_usage response,
           finish_reason = ''stop''\<rparr>
      | choice # _ \<Rightarrow>
          \<lparr>content = (case choice_content choice of None \<Rightarrow> [] | Some c \<Rightarrow> c),
           tool_calls = choice_tool_calls choice,
           usage = resp_usage response,
           finish_reason =
             (case choice_finish_reason choice of
                None \<Rightarrow> ''stop''
              | Some r \<Rightarrow> if r = [] then ''stop'' else r)\<rparr>)"

definition chatCompletion ::
  "'j env \<Rightarrow> Message list \<Rightarrow> string \<Rightarrow> ToolDefinition list option \<Rightarrow> 'j chat_state \<Rightarrow>
     (thrown + Completion) \<times> 'j chat_state"
where
  "chatCompletion E msgs mdl tools st =
     (case post_json E (make_request msgs mdl tools False) of
        Inl e \<Rightarrow> (Inl e, st\<lparr>requests := requests st @ [make_request msgs mdl tools False]\<rparr>)
      | Inr response \<Rightarrow>
          (case resp_usage response of
             None \<Rightarrow>
               (Inr (completion_of response),
                st\<lparr>requests := requests st @ [make_request msgs mdl tools False]\<rparr>)
           | Some u \<Rightarrow>
               (case trackUsage (usage_sink E)
                       \<lparr>ue_command = ''chat'',
                        ue_model = (if mdl = [] then default_model else mdl),
                        ue_usage = Some u\<rparr> (usage_log st) of
                  Inl err \<Rightarrow>
                    (Inl (Error err),
                     st\<lparr>requests := requests st @ [make_request msgs mdl tools False]\<rparr>)
                | Inr log' \<Rightarrow>
                    (Inr (completion_of response),
                     st\<lparr>requests := requests st @ [make_request msgs mdl tools False],
                        usage_log := log'\<rparr>))))"

definition chatCompletionStream ::
  "'j env \<Rightarrow> Message list \<Rightarrow> string \<Rightarrow> ToolDefinition list option \<Rightarrow> 'j chat_state \<Rightarrow>
     (thrown option \<times> StreamChunk list) \<times> 'j chat_state"
where
  "chatCompletionStream E msgs mdl tools st =
     (case post_stream E (make_request msgs mdl tools True) of
        Inl e \<Rightarrow>
          ((Some e, []), st\<lparr>requests := requests st @ [make_request msgs mdl tools True]\<rparr>)
      | Inr None \<Rightarrow>
          ((Some (Error ''No response body''), []),
           st\<lparr>requests := requests st @ [make_request msgs mdl tools True]\<rparr>)
      | Inr (Some reads) \<Rightarrow>
          (case decode (parse_record E) (usage_sink E)
                  (if mdl = [] then default_model else mdl) reads (usage_log st) of
             (err, out, log') \<Rightarrow>
               ((err, out),
                st\<lparr>requests := requests st @ [make_request msgs mdl tools True],
                   usage_log := log'\<rparr>)))"

section \<open>The conversation loop (src/commands/chat.ts)\<close>

text \<open>
  The two messages pushed for one tool call: the assistant message with the content of
  the first turn and this call, and the tool message with the result and the call's id.
\<close>

definition assistant_message :: "string \<Rightarrow> ToolCall \<Rightarrow> Message" where
  "assistant_message c toolCall =
     \<lparr>msg_role = Assistant, msg_content = c, msg_tool_calls = Some [toolCall],
      msg_tool_call_id = None\<rparr>"

definition tool_message :: "string \<Rightarrow> ToolCall \<Rightarrow> Message" where
  "tool_message res toolCall =
     \<lparr>msg_role = Tool, msg_content = res, msg_tool_calls = None,
      msg_tool_call_id = Some (tc_id toolCall)\<rparr>"

text \<open>\<^verbatim>\<open>JSON.parse(toolCall.function.arguments || '{}')\<close>\<close>

definition arguments_text :: "ToolCall \<Rightarrow> string" where
  "arguments_text toolCall = (if tc_arguments toolCall = [] then ''{}'' else tc_arguments toolCall)"

text \<open>
  The loop over the tool calls in \<open>nonStreamChat\<close>. \<open>JSON.parse\<close> is not inside a
  try block, so its \<open>SyntaxError\<close> leaves the loop and the function.
\<close>

fun dispatch_calls ::
  "'j env \<Rightarrow> string \<Rightarrow> bool \<Rightarrow> ToolCall list \<Rightarrow> 'j chat_state \<Rightarrow>
     thrown option \<times> 'j chat_state"
where
  "dispatch_calls E c interactive [] st = (None, st)"
| "dispatch_calls E c interactive (toolCall # rest) st =
     (case parse_args E (arguments_text toolCall) of
        None \<Rightarrow> (Some (SyntaxError (arguments_text toolCall)), st)
      | Some args \<Rightarrow>
          (case executeTool (registry E) (ask E) (tc_name toolCall) args interactive of
             (res, evs) \<Rightarrow>
               dispatch_calls E c interactive rest
                 (st\<lparr>messages := messages st @
                        [assistant_message c toolCall, tool_message res toolCall],
                     tool_events := tool_events st @ evs\<rparr>)))"

definition nonStreamChat ::
  "'j env \<Rightarrow> string \<Rightarrow> ToolDefinition list \<Rightarrow> bool \<Rightarrow> 'j chat_state \<Rightarrow>
     thrown option \<times> 'j chat_state"
where
  "nonStreamChat E mdl tools interactive st =
     (case chatCompletion E (messages st) mdl (Some tools) st of
        (Inl e, st1) \<Rightarrow> (Some e, st1)
      | (Inr response, st1) \<Rightarrow>
          (case tool_calls response of
             None \<Rightarrow> (None, st1\<lparr>printed := printed st1 @ [content response]\<rparr>)
           | Some calls \<Rightarrow>
               (if calls = [] then
                  (None, st1\<lparr>printed := printed st1 @ [content response]\<rparr>)
                else
                  (case dispatch_calls E (content response) interactive calls st1 of
                     (Some e, st2) \<Rightarrow> (Some e, st2)
                   | (None, st2) \<Rightarrow>
                       (case chatCompletion E (messages st2) mdl None st2 of
                          (Inl e, st3) \<Rightarrow> (Some e, st3)
                        | (Inr followUp, st3) \<Rightarrow>
                            (None, st3\<lparr>printed := printed st3 @ [content followUp]\<rparr>))))))"

text \<open>
  The first loop of \<open>streamChat\<close> over the chunks of the first turn: content is written
  out and appended to \<open>fullContent\<close>, the tool calls of every chunk are collected, and
  the loop breaks at the chunk that is done.
\<close>

fun collect ::
  "StreamChunk list \<Rightarrow> string \<Rightarrow> ToolCall list \<Rightarrow> string list \<Rightarrow>
     bool \<times> string \<times> ToolCall list \<times> string list"
where
  "collect [] fullContent collected out = (False, fullContent, collected, out)"
| "collect (chunk # rest) fullContent collected out =
     (if chunk_done chunk then
        (True,
         fullContent @ (case chunk_content chunk of None \<Rightarrow> [] | Some c \<Rightarrow> c),
         collected @ (case chunk_tool_calls chunk of None \<Rightarrow> [] | Some tcs \<Rightarrow> tcs),
         out @ (case chunk_content chunk of
                  None \<Rightarrow> [] | Some c \<Rightarrow> if c = [] then [] else [c]))
      else
        collect rest
          (fullContent @ (case chunk_content chunk of None \<Rightarrow> [] | Some c \<Rightarrow> c))
          (collected @ (case chunk_tool_calls chunk of None \<Rightarrow> [] | Some tcs \<Rightarrow> tcs))
          (out @ (case chunk_content chunk of
                    None \<Rightarrow> [] | Some c \<Rightarrow> if c = [] then [] else [c])))"

text \<open>The content a follow-up stream writes out: every chunk is read, none breaks.\<close>

definition followup_output :: "StreamChunk list \<Rightarrow> string list" where
  "followup_output chunks =
     concat (map (\<lambda>chunk. case chunk_content chunk of
                             None \<Rightarrow> []
                           | Some c \<Rightarrow> if c = [] then [] else [c]) chunks)"

text \<open>
  The loop over the collected tool calls in \<open>streamChat\<close>. The follow-up request is
  inside the loop body. \<open>JSON.parse\<close> and the follow-up are inside the function's try
  block, whose catch clause clears the spinner and throws the error again.
\<close>

fun stream_calls ::
  "'j env \<Rightarrow> string \<Rightarrow> string \<Rightarrow> bool \<Rightarrow> ToolCall list \<Rightarrow> 'j chat_state \<Rightarrow>
     thrown option \<times> 'j chat_state"
where
  "stream_calls E mdl fullContent interactive [] st = (None, st)"
| "stream_calls E mdl fullContent interactive (toolCall # rest) st =
     (case parse_args E (arguments_text toolCall) of
        None \<Rightarrow> (Some (SyntaxError (arguments_text toolCall)), st)
      | Some args \<Rightarrow>
          (case executeTool (registry E) (ask E) (tc_name toolCall) args interactive of
             (res, evs) \<Rightarrow>
               (case chatCompletionStream E
                       (messages st @
                          [assistant_message fullContent toolCall, tool_message res toolCall])
                       mdl None
                       (st\<lparr>messages := messages st @
                              [assistant_message fullContent toolCall,
                               tool_message res toolCall],
                           tool_events := tool_events st @ evs\<rparr>) of
                  ((err, chunks), st1) \<Rightarrow>
                    (case err of
                       Some e \<Rightarrow>
                         (Some e, st1\<lparr>printed := printed st1 @ followup_output chunks\<rparr>)
                     | None \<Rightarrow>
                         stream_calls E mdl fullContent interactive rest
                           (st1\<lparr>printed := printed st1 @ followup_output chunks\<rparr>)))))"

definition streamChat ::
  "'j env \<Rightarrow> string \<Rightarrow> ToolDefinition list \<Rightarrow> bool \<Rightarrow> 'j chat_state \<Rightarrow>
     thrown option \<times> 'j chat_state"
where
  "streamChat E mdl tools interactive st =
     (case chatCompletionStream E (messages st) mdl (Some tools) st of
        ((err, chunks), st1) \<Rightarrow>
          (case collect chunks [] [] [] of
             (broke, fullContent, collected, out) \<Rightarrow>
               (case (if broke then None else err) of
                  Some e \<Rightarrow> (Some e, st1\<lparr>printed := printed st1 @ out\<rparr>)
                | None \<Rightarrow>
                    (if collected = [] then (None, st1\<lparr>printed := printed st1 @ out\<rparr>)
                     else
                       stream_calls E mdl fullContent interactive collected
                         (st1\<lparr>printed := printed st1 @ out\<rparr>)))))"

section \<open>Reference definitions for the claims\<close>

text \<open>
  The decoder seen from the text of the whole stream: the complete lines are the lines
  that a newline ends; the text after the last newline is never a record.
\<close>

definition complete_lines :: "string \<Rightarrow> string list" where
  "complete_lines s = butlast (split_nl s)"

text \<open>How the generator ends after the inner loop has run over all the lines.\<close>

definition finish ::
  "line_status \<times> Usage option \<times> StreamChunk list \<times> UsageEntry list \<Rightarrow>
     thrown option \<times> StreamChunk list \<times> UsageEntry list"
where
  "finish r =
     (case r of
        (Running, totalUsage, out, log) \<Rightarrow> (None, out @ [done_chunk totalUsage], log)
      | (Returned, totalUsage, out, log) \<Rightarrow> (None, out, log)
      | (Threw e, totalUsage, out, log) \<Rightarrow> (Some e, out, log))"

text \<open>A malformed record: a data line that is not the sentinel and does not parse.\<close>

definition malformed :: "(string \<Rightarrow> StreamRecord option) \<Rightarrow> string \<Rightarrow> bool" where
  "malformed parse line =
     (is_data_line line \<and> payload line \<noteq> ''[DONE]'' \<and> parse (payload line) = None)"

text \<open>The well-formed record of a line, if it is a data line that parses.\<close>

definition line_record :: "(string \<Rightarrow> StreamRecord option) \<Rightarrow> string \<Rightarrow> StreamRecord option" where
  "line_record parse line = (if is_data_line line then parse (payload line) else None)"

text \<open>The chunks of the records of a list of lines, in order.\<close>

definition lines_chunks :: "(string \<Rightarrow> StreamRecord option) \<Rightarrow> string list \<Rightarrow> StreamChunk list" where
  "lines_chunks parse lines =
     concat (map (\<lambda>line. case line_record parse line of
                            None \<Rightarrow> []
                          | Some json \<Rightarrow> record_chunks json) lines)"

text \<open>The usage totals seen last in a list of lines, starting from \<open>u0\<close>.\<close>

definition seen_usage ::
  "(string \<Rightarrow> StreamRecord option) \<Rightarrow> string list \<Rightarrow> Usage option \<Rightarrow> Usage option"
where
  "seen_usage parse lines u0 =
     fold (\<lambda>line u. case line_record parse line of
                       None \<Rightarrow> u
                     | Some json \<Rightarrow> (case record_usage json of Some v \<Rightarrow> Some v | None \<Rightarrow> u))
          lines u0"



section \<open>A concrete environment for the examples\<close>

text \<open>
  \<open>JSON.parse\<close> on the error bodies of the examples, as a table: the one body below
  is a JSON envelope; the other bodies (plain words) are not in the table and do not
  parse.
\<close>

definition invalid_key_body :: string where
  \<open>invalid_key_body = ''{"error":{"message":"Invalid API key","code":"unauthorized"}}''\<close>

definition demo_envelope :: "string \<Rightarrow> ErrorEnvelope option" where
  "demo_envelope =
     map_of
       [(invalid_key_body,
         \<lparr>error_message = Some ''Invalid API key'', error_code = Some ''unauthorized'',
          top_message = None\<rparr>)]"

text \<open>The text of a stream: each payload as a data record followed by a blank line.\<close>

definition sse :: "string list \<Rightarrow> string" where
  "sse payloads = concat (map (\<lambda>p. ''data: '' @ p @ [CHR 0x0A, CHR 0x0A]) payloads)"

definition call_1 :: ToolCall where
  "call_1 = \<lparr>tc_id = ''call_1'', tc_name = ''datetime'', tc_arguments = ''{}''\<rparr>"

definition call_2 :: ToolCall where
  "call_2 = \<lparr>tc_id = ''call_2'', tc_name = ''datetime'', tc_arguments = ''{}''\<rparr>"

text \<open>
  The call \<open>call_1\<close> as a server streams it that opens a call with one delta entry
  (id, name, no arguments yet) and sends the arguments with a second entry.
\<close>

definition call_1_start :: ToolCall where
  "call_1_start = \<lparr>tc_id = ''call_1'', tc_name = ''datetime'', tc_arguments = []\<rparr>"

definition bad_call :: ToolCall where
  "bad_call = \<lparr>tc_id = ''call_1'', tc_name = ''datetime'', tc_arguments = ''{not json''\<rparr>"

text \<open>
  The record of a first turn that streams the given tool calls in one delta. (The ids,
  names and arguments of the examples need no escaping.)
\<close>

definition call_json :: "ToolCall \<Rightarrow> string" where
  \<open>call_json toolCall =
     ''{"id":"'' @ tc_id toolCall @ ''","type":"function","function":{"name":"'' @
     tc_name toolCall @ ''","arguments":"'' @ tc_arguments toolCall @ ''"}}''\<close>

fun join_commas :: "string list \<Rightarrow> string" where
  "join_commas [] = []"
| "join_commas [x] = x"
| "join_commas (x # y # zs) = x @ '','' @ join_commas (y # zs)"

definition calls_payload :: "ToolCall list \<Rightarrow> string" where
  \<open>calls_payload calls =
     ''{"choices":[{"delta":{"tool_calls":['' @ join_commas (map call_json calls) @
     '']}}]}''\<close>

definition answer_payload :: string where
  \<open>answer_payload = ''{"choices":[{"delta":{"content":"It is noon."}}]}''\<close>

definition usage_payload :: string where
  \<open>usage_payload =
     ''{"choices":[],"usage":{"prompt_tokens":12,"completion_tokens":5,"total_tokens":17}}''\<close>

definition demo_usage :: Usage where
  "demo_usage = \<lparr>prompt_tokens = 12, completion_tokens = 5, total_tokens = 17\<rparr>"

definition followup_usage_payload :: string where
  \<open>followup_usage_payload =
     ''{"choices":[],"usage":{"prompt_tokens":30,"completion_tokens":8,"total_tokens":38}}''\<close>

definition followup_usage :: Usage where
  "followup_usage = \<lparr>prompt_tokens = 30, completion_tokens = 8, total_tokens = 38\<rparr>"

text \<open>
  \<open>JSON.parse\<close> on the texts the examples use, as tables: the payloads above parse
  to the records beside them, the text \<open>{}\<close> parses to the object without members
  (an object is the list of its members here), and the text \<open>{not json\<close>, which is
  in neither table, does not parse.
\<close>

definition demo_parse_record :: "string \<Rightarrow> StreamRecord option" where
  "demo_parse_record =
     map_of
       (map (\<lambda>calls.
               (calls_payload calls,
                \<lparr>delta_content = None, delta_tool_calls = Some calls,
                 record_usage = None\<rparr>))
            [[], [call_1], [call_1, call_2], [bad_call], [call_1_start, call_1]] @
        [(answer_payload,
          \<lparr>delta_content = Some ''It is noon.'', delta_tool_calls = None,
           record_usage = None\<rparr>),
         (usage_payload,
          \<lparr>delta_content = None, delta_tool_calls = None,
           record_usage = Some demo_usage\<rparr>),
         (followup_usage_payload,
          \<lparr>delta_content = None, delta_tool_calls = None,
           record_usage = Some followup_usage\<rparr>)])"

definition demo_parse_args :: "string \<Rightarrow> (string \<times> string) list option" where
  "demo_parse_args = map_of [(''{}'', [])]"

text \<open>A registry with the one tool \<open>datetime\<close>, whose handler answers a fixed time.\<close>

definition demo_registry ::
  "string \<Rightarrow> ((string \<times> string) list \<Rightarrow> string + string) option"
where
  "demo_registry nm = (if nm = ''datetime'' then Some (\<lambda>args. Inr ''12:00:00 PM'') else None)"

definition sink_ok :: "UsageEntry \<Rightarrow> string option" where
  "sink_ok entry = None"

definition sink_failing :: "UsageEntry \<Rightarrow> string option" where
  "sink_failing entry = Some ''EACCES: permission denied''"

text \<open>
  The server of the examples. Asked with tools offered, it answers with the given tool
  calls; asked without tools, it answers with a sentence. Every answer carries usage
  totals. The user declines every approval.
\<close>

definition demo_env ::
  "ToolCall list \<Rightarrow> (UsageEntry \<Rightarrow> string option) \<Rightarrow> (string \<times> string) list env"
where
  "demo_env calls sink =
     \<lparr>post_json = (\<lambda>r.
        if req_tools r \<noteq> None then
          Inr \<lparr>resp_choices =
                 [\<lparr>choice_content = None, choice_tool_calls = Some calls,
                   choice_finish_reason = Some ''tool_calls''\<rparr>],
               resp_usage = Some demo_usage\<rparr>
        else
          Inr \<lparr>resp_choices =
                 [\<lparr>choice_content = Some ''It is noon.'', choice_tool_calls = None,
                   choice_finish_reason = Some ''stop''\<rparr>],
               resp_usage = Some demo_usage\<rparr>),
      post_stream = (\<lambda>r.
        if req_tools r \<noteq> None then
          Inr (Some [sse [calls_payload calls, usage_payload, ''[DONE]'']])
        else
          Inr (Some [sse [answer_payload, usage_payload, ''[DONE]'']])),
      parse_record = demo_parse_record,
      parse_args = demo_parse_args,
      usage_sink = sink,
      registry = demo_registry,
      ask = (\<lambda>nm args. ''n'')\<rparr>"



definition user_message :: Message where
  "user_message =
     \<lparr>msg_role = User, msg_content = ''what time is it'', msg_tool_calls = None,
      msg_tool_call_id = None\<rparr>"

definition initial_state :: "(string \<times> string) list chat_state" where
  "initial_state =
     \<lparr>messages = [user_message], requests = [], printed = [], usage_log = [],
      tool_events = []\<rparr>"

section \<open>Properties of the retry engine\<close>

lemma statusCode_fromResponse: "statusCode (fromResponse envelope s body) = Some s"
  by (simp add: fromResponse_def split: option.splits)

lemma classify_fromResponse:
  "classify (fromResponse envelope s body) =
     (if s = 401 \<or> s = 403 then AuthError
      else if s = 429 then RateLimited
      else if s = 0 \<or> (500 \<le> s \<and> s < 600) then Transient
      else ClientError)"
  by (simp add: classify_def statusCode_fromResponse isAuthError_def isRateLimited_def
      isRetryable_def)

lemma classify_AuthError_iff: "classify e = AuthError \<longleftrightarrow> isAuthError e"
  by (simp add: classify_def)

text \<open>
  C1, as the claim states it, fails in its last part: the kind of a failure does not
  decide the retry alone. A 503 response and a network fault (the error without status
  that the engine makes of it) are both Transient, yet at the same attempt, with the
  same budget and the same failing probe, the first is retried after the wait and the
  second is thrown as offline without a retry.
\<close>

theorem classification_counterexample:
  "classify (fromResponse demo_envelope 503 ''busy'') = Transient \<and>
   classify \<lparr>message = ''ECONNRESET'', statusCode = None, code = None\<rparr> = Transient \<and>
   apiRequest demo_envelope (script [] (NotOk 503 ''busy'') :: nat \<Rightarrow> unit attempt_result)
      (script [] False) 1 =
     (Inl (ApiError \<lparr>message = ''busy'', statusCode = Some 503, code = None\<rparr>),
      [Attempt 0, Sleep 1000, Attempt 1]) \<and>
   apiRequest demo_envelope (script [] (Rejected ''ECONNRESET'') :: nat \<Rightarrow> unit attempt_result)
      (script [] False) 1 =
     (Inl (Error offline_hint), [Attempt 0, Probe 0])"
  by code_simp

text \<open>
  C1, amended. The three predicates of the error class, read in the order in which the
  catch block tests them, give the policy of the claim for HTTP error responses: 401
  and 403 are authentication errors, 429 is a rate limit, every status from 500 to 599
  is transient (as is an error without status, by the predicate), and every other
  status from 400 to 499 is a client error. For an HTTP error response met at an
  attempt, what the loop does next is a case distinction on this kind alone, with the
  attempt and the budget: only the kinds RateLimited and Transient go on to another
  attempt. A network fault is not classified: it takes its own branch, where with a
  retry left the probe decides between the next attempt and the offline error, and on
  the last attempt the fault is thrown as an API error without status. An attempt that
  succeeds returns its payload.
\<close>

theorem classification_policy:
  "classify (fromResponse envelope 401 body) = AuthError \<and>
   classify (fromResponse envelope 403 body) = AuthError \<and>
   classify (fromResponse envelope 429 body) = RateLimited \<and>
   (500 \<le> s \<and> s < 600 \<longrightarrow> classify (fromResponse envelope s body) = Transient) \<and>
   classify \<lparr>message = m, statusCode = None, code = c\<rparr> = Transient \<and>
   (400 \<le> t \<and> t < 500 \<and> t \<noteq> 401 \<and> t \<noteq> 403 \<and> t \<noteq> 429 \<longrightarrow>
      classify (fromResponse envelope t body) = ClientError) \<and>
   (fetch attempt = NotOk status body \<and> attempt \<le> retries \<longrightarrow>
      apiRequest_loop envelope fetch online retries attempt lastError trace =
        (case classify (fromResponse envelope status body) of
           AuthError \<Rightarrow> (Inl (Error auth_hint), trace @ [Attempt attempt])
         | RateLimited \<Rightarrow>
             apiRequest_loop envelope fetch online retries (Suc attempt)
               (Some (fromResponse envelope status body))
               (trace @ [Attempt attempt, Sleep (RETRY_DELAY_MS * (attempt + 1) * 2)])
         | Transient \<Rightarrow>
             (if attempt < retries then
                apiRequest_loop envelope fetch online retries (Suc attempt)
                  (Some (fromResponse envelope status body))
                  (trace @ [Attempt attempt, Sleep (RETRY_DELAY_MS * (attempt + 1))])
              else (Inl (ApiError (fromResponse envelope status body)),
                    trace @ [Attempt attempt]))
         | ClientError \<Rightarrow>
             (Inl (ApiError (fromResponse envelope status body)), trace @ [Attempt attempt]))) \<and>
   (fetch attempt = Rejected msg \<and> attempt \<le> retries \<longrightarrow>
      apiRequest_loop envelope fetch online retries attempt lastError trace =
        (if attempt < retries then
           (if online attempt then
              apiRequest_loop envelope fetch online retries (Suc attempt) lastError
                (trace @ [Attempt attempt, Probe attempt,
                          Sleep (RETRY_DELAY_MS * (attempt + 1))])
            else (Inl (Error offline_hint), trace @ [Attempt attempt, Probe attempt]))
         else
           (Inl (ApiError \<lparr>message = msg, statusCode = None, code = None\<rparr>),
            trace @ [Attempt attempt]))) \<and>
   (fetch attempt = Ok v \<and> attempt \<le> retries \<longrightarrow>
      apiRequest_loop envelope fetch online retries attempt lastError trace =
        (Inr v, trace @ [Attempt attempt]))"
proof -
  have kinds:
    "classify (fromResponse envelope 401 body) = AuthError"
    "classify (fromResponse envelope 403 body) = AuthError"
    "classify (fromResponse envelope 429 body) = RateLimited"
    "500 \<le> s \<and> s < 600 \<longrightarrow> classify (fromResponse envelope s body) = Transient"
    "400 \<le> t \<and> t < 500 \<and> t \<noteq> 401 \<and> t \<noteq> 403 \<and> t \<noteq> 429 \<longrightarrow>
       classify (fromResponse envelope t body) = ClientError"
    by (simp_all add: classify_fromResponse)
  have absent: "classify \<lparr>message = m, statusCode = None, code = c\<rparr> = Transient"
    by (simp add: classify_def isAuthError_def isRateLimited_def isRetryable_def)
  have not_ok: "fetch attempt = NotOk status body \<and> attempt \<le> retries \<longrightarrow>
      apiRequest_loop envelope fetch online retries attempt lastError trace =
        (case classify (fromResponse envelope status body) of
           AuthError \<Rightarrow> (Inl (Error auth_hint), trace @ [Attempt attempt])
         | RateLimited \<Rightarrow>
             apiRequest_loop envelope fetch online retries (Suc attempt)
               (Some (fromResponse envelope status body))
               (trace @ [Attempt attempt, Sleep (RETRY_DELAY_MS * (attempt + 1) * 2)])
         | Transient \<Rightarrow>
             (if attempt < retries then
                apiRequest_loop envelope fetch online retries (Suc attempt)
                  (Some (fromResponse envelope status body))
                  (trace @ [Attempt attempt, Sleep (RETRY_DELAY_MS * (attempt + 1))])
              else (Inl (ApiError (fromResponse envelope status body)),
                    trace @ [Attempt attempt]))
         | ClientError \<Rightarrow>
             (Inl (ApiError (fromResponse envelope status body)), trace @ [Attempt attempt]))"
    by (subst apiRequest_loop.simps) (simp add: classify_def)
  have rejected: "fetch attempt = Rejected msg \<and> attempt \<le> retries \<longrightarrow>
      apiRequest_loop envelope fetch online retries attempt lastError trace =
        (if attempt < retries then
           (if online attempt then
              apiRequest_loop envelope fetch online retries (Suc attempt) lastError
                (trace @ [Attempt attempt, Probe attempt,
                          Sleep (RETRY_DELAY_MS * (attempt + 1))])
            else (Inl (Error offline_hint), trace @ [Attempt attempt, Probe attempt]))
         else
           (Inl (ApiError \<lparr>message = msg, statusCode = None, code = None\<rparr>),
            trace @ [Attempt attempt]))"
    by (subst apiRequest_loop.simps) simp
  have ok: "fetch attempt = Ok v \<and> attempt \<le> retries \<longrightarrow>
      apiRequest_loop envelope fetch online retries attempt lastError trace =
        (Inr v, trace @ [Attempt attempt])"
    by (subst apiRequest_loop.simps) simp
  from kinds absent not_ok rejected ok show ?thesis by blast
qed

theorem classification_policy_witness:
  "classify (fromResponse demo_envelope 503 invalid_key_body) = Transient \<and>
   classify (fromResponse demo_envelope 404 invalid_key_body) = ClientError \<and>
   apiRequest_loop demo_envelope (script [NotOk 404 invalid_key_body] (Ok ()))
      (script [] True) 3 0 None [] =
     (Inl (ApiError (fromResponse demo_envelope 404 invalid_key_body)), [Attempt 0]) \<and>
   apiRequest_loop demo_envelope (script [Rejected ''ECONNRESET''] (Ok ()))
      (script [] False) 3 0 None [] =
     (Inl (Error offline_hint), [Attempt 0, Probe 0]) \<and>
   apiRequest_loop demo_envelope (script [] (Rejected ''ECONNRESET'') :: nat \<Rightarrow> unit attempt_result)
      (script [] True) 3 3 None [] =
     (Inl (ApiError \<lparr>message = ''ECONNRESET'', statusCode = None, code = None\<rparr>),
      [Attempt 3]) \<and>
   apiRequest_loop demo_envelope (script [] (Ok ())) (script [] True) 3 0 None [] =
     (Inr (), [Attempt 0])"
proof -
  note a = classification_policy [where envelope = demo_envelope and s = 503 and t = 404
      and body = invalid_key_body and m = "[]" and c = None
      and fetch = "script [NotOk 404 invalid_key_body] (Ok ())" and attempt = 0
      and status = 404 and retries = 3 and online = "script [] True"
      and lastError = None and trace = "[]" and msg = "[]" and v = "()"]
  note b = classification_policy [where envelope = demo_envelope and s = 503 and t = 404
      and body = invalid_key_body and m = "[]" and c = None
      and fetch = "script [Rejected ''ECONNRESET''] (Ok ())" and attempt = 0
      and status = 404 and retries = 3 and online = "script [] False"
      and lastError = None and trace = "[]" and msg = "''ECONNRESET''" and v = "()"]
  note c = classification_policy [where envelope = demo_envelope and s = 503 and t = 404
      and body = invalid_key_body and m = "[]" and c = None
      and fetch = "script [] (Rejected ''ECONNRESET'') :: nat \<Rightarrow> unit attempt_result"
      and attempt = 3 and status = 404 and retries = 3 and online = "script [] True"
      and lastError = None and trace = "[]" and msg = "''ECONNRESET''" and v = "()"]
  note d = classification_policy [where envelope = demo_envelope and s = 503 and t = 404
      and body = invalid_key_body and m = "[]" and c = None
      and fetch = "script [] (Ok ())" and attempt = 0
      and status = 404 and retries = 3 and online = "script [] True"
      and lastError = None and trace = "[]" and msg = "[]" and v = "()"]
  have 1: "classify (fromResponse demo_envelope 503 invalid_key_body) = Transient"
    and 2: "classify (fromResponse demo_envelope 404 invalid_key_body) = ClientError"
    using a by simp_all
  have 3: "apiRequest_loop demo_envelope (script [NotOk 404 invalid_key_body] (Ok ()))
      (script [] True) 3 0 None [] =
     (Inl (ApiError (fromResponse demo_envelope 404 invalid_key_body)), [Attempt 0])"
    using a by (simp add: script_def)
  have 4: "apiRequest_loop demo_envelope (script [Rejected ''ECONNRESET''] (Ok ()))
      (script [] False) 3 0 None [] =
     (Inl (Error offline_hint), [Attempt 0, Probe 0])"
    using b by (simp add: script_def)
  have 5: "apiRequest_loop demo_envelope
      (script [] (Rejected ''ECONNRESET'') :: nat \<Rightarrow> unit attempt_result)
      (script [] True) 3 3 None [] =
     (Inl (ApiError \<lparr>message = ''ECONNRESET'', statusCode = None, code = None\<rparr>),
      [Attempt 3])"
    using c by (simp add: script_def)
  have 6: "apiRequest_loop demo_envelope (script [] (Ok ())) (script [] True) 3 0 None [] =
     (Inr (), [Attempt 0])"
    using d by (simp add: script_def)
  from 1 2 3 4 5 6 show ?thesis by blast
qed

text \<open>
  C4. When the first response is an authentication error, the engine sends exactly one
  request and throws the error with the remediation hint: the trace has the one attempt
  and neither a sleep nor a probe.
\<close>

theorem auth_error_single_attempt:
  assumes "fetch 0 = NotOk status body"
    and "classify (fromResponse envelope status body) = AuthError"
  shows "apiRequest envelope fetch online retries = (Inl (Error auth_hint), [Attempt 0])"
proof -
  from assms(2) have "isAuthError (fromResponse envelope status body)"
    by (simp add: classify_AuthError_iff)
  with assms(1) show ?thesis
    unfolding apiRequest_def by (subst apiRequest_loop.simps) simp
qed

theorem auth_error_single_attempt_witness:
  "script [NotOk 401 ''denied''] (Ok ()) 0 = NotOk 401 ''denied'' \<and>
   classify (fromResponse demo_envelope 401 ''denied'') = AuthError \<and>
   apiRequest demo_envelope (script [NotOk 401 ''denied''] (Ok ())) (script [] True) MAX_RETRIES =
     (Inl (Error auth_hint), [Attempt 0])"
proof -
  have f: "script [NotOk 401 ''denied''] (Ok ()) 0 = NotOk 401 ''denied''"
    by (simp add: script_def)
  have k: "classify (fromResponse demo_envelope 401 ''denied'') = AuthError"
    by (simp add: classify_fromResponse)
  from f k auth_error_single_attempt [where fetch = "script [NotOk 401 ''denied''] (Ok ())"
      and envelope = demo_envelope,
      OF f k] show ?thesis by simp
qed

text \<open>
  C5, as the claim states it, fails twice. A 503 response met before the last retry is
  retried after the wait with no probe at all, even when the probe would have failed;
  and after a network fault the probe runs before every retry, not only the last.
\<close>

theorem probe_counterexample:
  "apiRequest demo_envelope (script [] (NotOk 503 ''unavailable'') :: nat \<Rightarrow> unit attempt_result)
      (script [] False) 1 =
     (Inl (ApiError \<lparr>message = ''unavailable'', statusCode = Some 503, code = None\<rparr>),
      [Attempt 0, Sleep 1000, Attempt 1]) \<and>
   apiRequest demo_envelope (script [Rejected ''ECONNRESET'', Rejected ''ECONNRESET''] (Ok ()))
      (script [] True) 3 =
     (Inr (), [Attempt 0, Probe 0, Sleep 1000, Attempt 1, Probe 1, Sleep 2000, Attempt 2])"
  by code_simp

text \<open>
  C5, amended. The probe belongs to network faults: an error of the attempt that is not
  an HTTP error response. With a retry left, the engine probes before that retry
  (every such retry); a failed probe throws the offline error at once, a successful one
  is followed by the wait \<open>RETRY_DELAY_MS * (attempt + 1)\<close> and the next attempt. A
  transient HTTP error with a retry left is followed by the same wait and the next
  attempt, without a probe.
\<close>

theorem probe_on_network_fault:
  assumes "attempt < retries"
  shows
    "(fetch attempt = Rejected msg \<longrightarrow>
        apiRequest_loop envelope fetch online retries attempt lastError trace =
          (if online attempt then
             apiRequest_loop envelope fetch online retries (Suc attempt) lastError
               (trace @ [Attempt attempt, Probe attempt,
                         Sleep (RETRY_DELAY_MS * (attempt + 1))])
           else (Inl (Error offline_hint), trace @ [Attempt attempt, Probe attempt]))) \<and>
     (fetch attempt = NotOk status body \<and>
      classify (fromResponse envelope status body) = Transient \<longrightarrow>
        apiRequest_loop envelope fetch online retries attempt lastError trace =
          apiRequest_loop envelope fetch online retries (Suc attempt)
            (Some (fromResponse envelope status body))
            (trace @ [Attempt attempt, Sleep (RETRY_DELAY_MS * (attempt + 1))]))"
proof (intro conjI impI)
  assume "fetch attempt = Rejected msg"
  with assms show "apiRequest_loop envelope fetch online retries attempt lastError trace =
          (if online attempt then
             apiRequest_loop envelope fetch online retries (Suc attempt) lastError
               (trace @ [Attempt attempt, Probe attempt,
                         Sleep (RETRY_DELAY_MS * (attempt + 1))])
           else (Inl (Error offline_hint), trace @ [Attempt attempt, Probe attempt]))"
    by (subst apiRequest_loop.simps) simp
next
  assume a: "fetch attempt = NotOk status body \<and>
      classify (fromResponse envelope status body) = Transient"
  then have "\<not> isAuthError (fromResponse envelope status body)"
    "\<not> isRateLimited (fromResponse envelope status body)"
    "isRetryable (fromResponse envelope status body)"
    by (auto simp: classify_def split: if_splits)
  with a assms show "apiRequest_loop envelope fetch online retries attempt lastError trace =
          apiRequest_loop envelope fetch online retries (Suc attempt)
            (Some (fromResponse envelope status body))
            (trace @ [Attempt attempt, Sleep (RETRY_DELAY_MS * (attempt + 1))])"
    by (subst apiRequest_loop.simps) simp
qed

theorem probe_on_network_fault_witness:
  "apiRequest_loop demo_envelope (script [Rejected ''ECONNRESET''] (Ok ())) (script [] False) 3 0 None [] =
     (Inl (Error offline_hint), [Attempt 0, Probe 0]) \<and>
   apiRequest_loop demo_envelope (script [NotOk 503 ''busy''] (Ok ())) (script [] False) 3 0 None [] =
     apiRequest_loop demo_envelope (script [NotOk 503 ''busy''] (Ok ())) (script [] False) 3 1
       (Some (fromResponse demo_envelope 503 ''busy'')) [Attempt 0, Sleep 1000]"
proof -
  have lt: "(0::nat) < 3" by simp
  have k: "classify (fromResponse demo_envelope 503 ''busy'') = Transient"
    by (simp add: classify_fromResponse)
  from probe_on_network_fault [OF lt, where envelope = demo_envelope and fetch = "script [Rejected ''ECONNRESET''] (Ok ())"
      and msg = "''ECONNRESET''" and online = "script [] False" and lastError = None
      and trace = "[]"]
  have a: "apiRequest_loop demo_envelope (script [Rejected ''ECONNRESET''] (Ok ())) (script [] False) 3 0 None [] =
     (Inl (Error offline_hint), [Attempt 0, Probe 0])"
    by (simp add: script_def)
  from probe_on_network_fault [OF lt, where envelope = demo_envelope and fetch = "script [NotOk 503 ''busy''] (Ok ())"
      and status = 503 and body = "''busy''" and online = "script [] False"
      and lastError = None and trace = "[]"] k
  have b: "apiRequest_loop demo_envelope (script [NotOk 503 ''busy''] (Ok ())) (script [] False) 3 0 None [] =
     apiRequest_loop demo_envelope (script [NotOk 503 ''busy''] (Ok ())) (script [] False) 3 1
       (Some (fromResponse demo_envelope 503 ''busy'')) [Attempt 0, Sleep 1000]"
    by (simp add: script_def RETRY_DELAY_MS_def)
  from a b show ?thesis by simp
qed

section \<open>Properties of the tool dispatcher\<close>

text \<open>
  C8. In a dispatch with interactive approval, when the user's answer is a decline, no
  handler is invoked. The prompt is shown exactly when the tool is registered, and then
  the dispatcher returns the fixed cancellation text (an unknown tool is answered before
  any prompt).
\<close>

theorem decline_cancels:
  assumes "interactive" and "\<not> promptForApproval (answers nm args)"
  shows
    "(\<forall>n a. Invoked n a \<notin> set (snd (executeTool reg answers nm args interactive))) \<and>
     (Prompted nm args \<in> set (snd (executeTool reg answers nm args interactive)) \<longleftrightarrow>
        reg nm \<noteq> None) \<and>
     (Prompted nm args \<in> set (snd (executeTool reg answers nm args interactive)) \<longrightarrow>
        executeTool reg answers nm args interactive =
          (''Tool execution cancelled by user'', [Prompted nm args]))"
  using assms by (cases "reg nm") (simp_all add: executeTool_def)

theorem decline_cancels_witness:
  "\<not> promptForApproval ''n'' \<and>
   executeTool demo_registry (\<lambda>nm args. ''n'') ''datetime'' [] True =
     (''Tool execution cancelled by user'', [Prompted ''datetime'' []])"
proof -
  have d: "\<not> promptForApproval ((\<lambda>nm args. ''n'') ''datetime'' ([] :: (string \<times> string) list))"
    by code_simp
  have r: "demo_registry ''datetime'' \<noteq> None"
    by (simp add: demo_registry_def)
  from decline_cancels [where interactive = True and answers = "\<lambda>nm args. ''n''"
      and nm = "''datetime''" and args = "[] :: (string \<times> string) list"
      and reg = demo_registry, OF TrueI d] r d
  show ?thesis by simp
qed

section \<open>Properties of the streaming decoder\<close>

lemma split_nl_not_Nil: "split_nl s \<noteq> []"
  by (induction s) (auto split: list.splits)

lemma split_nl_append:
  "split_nl (a @ b) = butlast (split_nl a) @ split_nl (last (split_nl a) @ b)"
proof (induction a)
  case Nil
  show ?case by simp
next
  case (Cons c cs)
  obtain l ls where S: "split_nl cs = l # ls"
    using split_nl_not_Nil by (cases "split_nl cs") auto
  obtain l' ls' where S': "split_nl (cs @ b) = l' # ls'"
    using split_nl_not_Nil by (cases "split_nl (cs @ b)") auto
  show ?case
  proof (cases "c = CHR 0x0A")
    case True
    with Cons S show ?thesis by simp
  next
    case False
    show ?thesis
    proof (cases ls)
      case Nil
      with False Cons S show ?thesis by simp
    next
      case (Cons l2 ls2)
      with False Cons.IH S show ?thesis by simp
    qed
  qed
qed

lemma split_nl_no_newline: "CHR 0x0A \<notin> set s \<Longrightarrow> split_nl s = [s]"
  by (induction s) auto

lemma last_split_nl_no_newline: "CHR 0x0A \<notin> set (last (split_nl s))"
proof (induction s)
  case Nil
  show ?case by simp
next
  case (Cons c cs)
  obtain l ls where S: "split_nl cs = l # ls"
    using split_nl_not_Nil by (cases "split_nl cs") auto
  with Cons show ?case by (cases ls) auto
qed

lemma process_lines_append:
  "process_lines parse sink mdl (xs @ ys) totalUsage out log =
     (case process_lines parse sink mdl xs totalUsage out log of
        (Running, totalUsage', out', log') \<Rightarrow> process_lines parse sink mdl ys totalUsage' out' log'
      | (Returned, r) \<Rightarrow> (Returned, r)
      | (Threw e, r) \<Rightarrow> (Threw e, r))"
  by (induction xs arbitrary: totalUsage out log)
     (auto split: option.splits sum.splits)

text \<open>
  Buffering does not show: however the transport cuts the text into reads, the decoder
  runs the inner loop over the complete lines of the whole text.
\<close>

lemma read_loop_lines:
  "CHR 0x0A \<notin> set buffer \<Longrightarrow>
   read_loop parse sink mdl reads buffer totalUsage out log =
     finish (process_lines parse sink mdl (butlast (split_nl (buffer @ concat reads)))
               totalUsage out log)"
proof (induction reads arbitrary: buffer totalUsage out log)
  case Nil
  then show ?case by (simp add: split_nl_no_newline finish_def)
next
  case (Cons chunk reads)
  let ?S = "split_nl (buffer @ chunk)"
  have split: "butlast (split_nl (buffer @ chunk @ concat reads)) =
      butlast ?S @ butlast (split_nl (last ?S @ concat reads))"
    using split_nl_append [of "buffer @ chunk" "concat reads"]
    by (simp add: butlast_append split_nl_not_Nil)
  obtain status tu' out' log' where P:
    "process_lines parse sink mdl (butlast ?S) totalUsage out log = (status, tu', out', log')"
    by (cases "process_lines parse sink mdl (butlast ?S) totalUsage out log") auto
  show ?case
  proof (cases status)
    case Running
    with P Cons.IH [OF last_split_nl_no_newline, of "buffer @ chunk" tu' out' log']
    show ?thesis by (simp add: split process_lines_append)
  next
    case Returned
    with P show ?thesis by (simp add: split process_lines_append finish_def)
  next
    case (Threw e)
    with P show ?thesis by (simp add: split process_lines_append finish_def)
  qed
qed

lemma decode_lines:
  "decode parse sink mdl reads log =
     finish (process_lines parse sink mdl (complete_lines (concat reads)) None [] log)"
  using read_loop_lines [of "[]" parse sink mdl reads None "[]" log]
  by (simp add: decode_def complete_lines_def)

lemma process_lines_skip:
  "process_lines parse sink mdl (filter (\<lambda>l. \<not> malformed parse l) lines) totalUsage out log =
   process_lines parse sink mdl lines totalUsage out log"
  by (induction lines arbitrary: totalUsage out log)
     (auto simp: malformed_def split: option.splits sum.splits)

lemma process_lines_no_throw:
  "(\<And>e. sink e = None) \<Longrightarrow>
   fst (process_lines parse sink mdl lines totalUsage out log) \<in> {Running, Returned}"
  by (induction lines arbitrary: totalUsage out log)
     (auto simp: trackUsage_def split: option.splits sum.splits)

lemma finish_no_throw:
  "fst r \<in> {Running, Returned} \<Longrightarrow> fst (finish r) = None"
  by (cases r) (auto simp: finish_def)

lemma process_lines_no_done:
  "\<forall>l \<in> set lines. \<not> is_done_line l \<Longrightarrow>
   process_lines parse sink mdl lines totalUsage out log =
     (Running, seen_usage parse lines totalUsage, out @ lines_chunks parse lines, log)"
  by (induction lines arbitrary: totalUsage out)
     (auto simp: seen_usage_def lines_chunks_def line_record_def is_done_line_def
       split: option.splits)

lemma record_chunks_not_done: "c \<in> set (record_chunks json) \<Longrightarrow> \<not> chunk_done c"
  by (auto simp: record_chunks_def content_chunk_def tool_calls_chunk_def
      split: option.splits if_splits)

lemma lines_chunks_not_done: "c \<in> set (lines_chunks parse lines) \<Longrightarrow> \<not> chunk_done c"
  by (auto simp: lines_chunks_def record_chunks_not_done split: option.splits)

lemma seen_usage_None_iff:
  "seen_usage parse lines u0 = None \<longleftrightarrow>
     u0 = None \<and>
     (\<forall>l \<in> set lines. \<forall>json. line_record parse l = Some json \<longrightarrow> record_usage json = None)"
  by (induction lines arbitrary: u0) (auto simp: seen_usage_def split: option.splits)

lemma process_lines_to_sentinel:
  assumes "is_done_line d" and "\<forall>l \<in> set pre. \<not> is_done_line l"
  shows "finish (process_lines parse sink mdl (pre @ d # post) None [] log) =
     (case seen_usage parse pre None of
        None \<Rightarrow> (None, lines_chunks parse pre @ [done_chunk None], log)
      | Some u \<Rightarrow>
          (case sink \<lparr>ue_command = ''chat'', ue_model = mdl, ue_usage = Some u\<rparr> of
             None \<Rightarrow>
               (None, lines_chunks parse pre @ [done_chunk (Some u)],
                log @ [\<lparr>ue_command = ''chat'', ue_model = mdl, ue_usage = Some u\<rparr>])
           | Some err \<Rightarrow> (Some (Error err), lines_chunks parse pre, log)))"
  using assms
  by (simp add: process_lines_append process_lines_no_done is_done_line_def finish_def
      trackUsage_def split: option.splits)

text \<open>
  C6. Whatever the reads of the stream are, the decoder's result is the one it gives on
  the text with every malformed record removed: such a record yields nothing, changes
  nothing and raises nothing. The decoder itself never throws (only a fault of the usage
  sink can end a stream with an error). The first record whose payload is the sentinel
  ends the sequence: the chunks of the records before it are followed by the terminal
  chunk and nothing after the sentinel is read. In particular a malformed record
  followed by the sentinel yields the terminal chunk alone.
\<close>

theorem malformed_records_skipped:
  "decode parse sink mdl reads log =
     finish (process_lines parse sink mdl
               (filter (\<lambda>l. \<not> malformed parse l) (complete_lines (concat reads)))
               None [] log) \<and>
   ((\<forall>e. sink e = None) \<longrightarrow> fst (decode parse sink mdl reads log) = None) \<and>
   (complete_lines (concat reads) = pre @ d # post \<and> is_done_line d \<and>
    (\<forall>l \<in> set pre. \<not> is_done_line l) \<longrightarrow>
      decode parse sink mdl reads log =
        (case seen_usage parse pre None of
           None \<Rightarrow> (None, lines_chunks parse pre @ [done_chunk None], log)
         | Some u \<Rightarrow>
             (case sink \<lparr>ue_command = ''chat'', ue_model = mdl, ue_usage = Some u\<rparr> of
                None \<Rightarrow>
                  (None, lines_chunks parse pre @ [done_chunk (Some u)],
                   log @ [\<lparr>ue_command = ''chat'', ue_model = mdl, ue_usage = Some u\<rparr>])
              | Some err \<Rightarrow> (Some (Error err), lines_chunks parse pre, log)))) \<and>
   (parse ''{not json'' = None \<longrightarrow>
      decode parse sink mdl
        [''data: {not json'' @ [CHR 0x0A, CHR 0x0A] @ ''data: [DONE]'' @ [CHR 0x0A, CHR 0x0A]]
        log = (None, [done_chunk None], log))"
proof (intro conjI impI)
  show "decode parse sink mdl reads log =
     finish (process_lines parse sink mdl
               (filter (\<lambda>l. \<not> malformed parse l) (complete_lines (concat reads)))
               None [] log)"
    by (simp only: decode_lines process_lines_skip)
next
  assume "\<forall>e. sink e = None"
  then have "fst (process_lines parse sink mdl (complete_lines (concat reads)) None [] log)
      \<in> {Running, Returned}"
    by (intro process_lines_no_throw) simp
  then show "fst (decode parse sink mdl reads log) = None"
    by (simp only: decode_lines finish_no_throw)
next
  assume a: "complete_lines (concat reads) = pre @ d # post \<and> is_done_line d \<and>
    (\<forall>l \<in> set pre. \<not> is_done_line l)"
  then have "is_done_line d" and "\<forall>l \<in> set pre. \<not> is_done_line l"
    by simp_all
  from process_lines_to_sentinel [OF this] a show "decode parse sink mdl reads log =
        (case seen_usage parse pre None of
           None \<Rightarrow> (None, lines_chunks parse pre @ [done_chunk None], log)
         | Some u \<Rightarrow>
             (case sink \<lparr>ue_command = ''chat'', ue_model = mdl, ue_usage = Some u\<rparr> of
                None \<Rightarrow>
                  (None, lines_chunks parse pre @ [done_chunk (Some u)],
                   log @ [\<lparr>ue_command = ''chat'', ue_model = mdl, ue_usage = Some u\<rparr>])
              | Some err \<Rightarrow> (Some (Error err), lines_chunks parse pre, log)))"
    by (simp only: decode_lines)
next
  assume "parse ''{not json'' = None"
  then show "decode parse sink mdl
        [''data: {not json'' @ [CHR 0x0A, CHR 0x0A] @ ''data: [DONE]'' @ [CHR 0x0A, CHR 0x0A]]
        log = (None, [done_chunk None], log)"
    by (simp add: decode_def is_data_line_def payload_def trim_def is_space_def)
qed

theorem malformed_records_skipped_witness:
  "demo_parse_record ''{not json'' = None \<and>
   malformed demo_parse_record ''data: {not json'' \<and>
   is_done_line ''data: [DONE]'' \<and>
   decode demo_parse_record sink_ok ''m''
     [''data: {not json'' @ [CHR 0x0A, CHR 0x0A] @ ''data: [DONE]'' @ [CHR 0x0A, CHR 0x0A]] [] =
     (None, [done_chunk None], []) \<and>
   fst (decode demo_parse_record sink_ok ''m''
     [''data: {not json'' @ [CHR 0x0A, CHR 0x0A] @ ''data: [DONE]'' @ [CHR 0x0A, CHR 0x0A]] []) =
     None"
proof -
  have p: "demo_parse_record ''{not json'' = None" by code_simp
  have m: "malformed demo_parse_record ''data: {not json''" by code_simp
  have d: "is_done_line ''data: [DONE]''" by code_simp
  have s: "\<forall>e. sink_ok e = None" by (simp add: sink_ok_def)
  note inst = malformed_records_skipped [where parse = demo_parse_record and sink = sink_ok
      and mdl = "''m''" and log = "[]" and d = "''data: [DONE]''"
      and pre = "[''data: {not json'', [] ]" and post = "[[]]"
      and reads = "[''data: {not json'' @ [CHR 0x0A, CHR 0x0A] @ ''data: [DONE]'' @
                     [CHR 0x0A, CHR 0x0A]]"]
  from inst p have a: "decode demo_parse_record sink_ok ''m''
     [''data: {not json'' @ [CHR 0x0A, CHR 0x0A] @ ''data: [DONE]'' @ [CHR 0x0A, CHR 0x0A]] [] =
     (None, [done_chunk None], [])"
    by blast
  from inst s have b: "fst (decode demo_parse_record sink_ok ''m''
     [''data: {not json'' @ [CHR 0x0A, CHR 0x0A] @ ''data: [DONE]'' @ [CHR 0x0A, CHR 0x0A]] []) =
     None"
    by blast
  from p m d a b show ?thesis by simp
qed

text \<open>
  C10. When no complete line of the stream is a sentinel record, the generator ends at
  the end of the transport: it yields the chunks of the well-formed records, none of
  which is done, then exactly one chunk that is done and carries the usage totals seen
  last (none exactly when no well-formed record had any), and the usage log is left as
  it was: no entry is recorded.
\<close>

theorem end_of_stream_without_sentinel:
  assumes "\<forall>l \<in> set (complete_lines (concat reads)). \<not> is_done_line l"
  shows
    "decode parse sink mdl reads log =
       (None,
        lines_chunks parse (complete_lines (concat reads)) @
          [done_chunk (seen_usage parse (complete_lines (concat reads)) None)],
        log) \<and>
     (\<forall>c \<in> set (lines_chunks parse (complete_lines (concat reads))). \<not> chunk_done c) \<and>
     chunk_done (done_chunk (seen_usage parse (complete_lines (concat reads)) None)) \<and>
     chunk_usage (done_chunk (seen_usage parse (complete_lines (concat reads)) None)) =
       seen_usage parse (complete_lines (concat reads)) None \<and>
     (seen_usage parse (complete_lines (concat reads)) None = None \<longleftrightarrow>
        (\<forall>l \<in> set (complete_lines (concat reads)).
           \<forall>json. line_record parse l = Some json \<longrightarrow> record_usage json = None))"
  using assms
  by (simp add: decode_lines process_lines_no_done finish_def lines_chunks_not_done
      done_chunk_def seen_usage_None_iff)

theorem end_of_stream_without_sentinel_witness:
  "decode demo_parse_record sink_failing ''m''
     [sse [answer_payload], sse [usage_payload] @ ''data: [DONE]''] [] =
     (None, [content_chunk ''It is noon.'', done_chunk (Some demo_usage)], [])"
proof -
  have h: "\<forall>l \<in> set (complete_lines
      (concat [sse [answer_payload], sse [usage_payload] @ ''data: [DONE]''])).
      \<not> is_done_line l"
    by code_simp
  have c: "lines_chunks demo_parse_record (complete_lines
      (concat [sse [answer_payload], sse [usage_payload] @ ''data: [DONE]''])) =
      [content_chunk ''It is noon.'']"
    by code_simp
  have u: "seen_usage demo_parse_record (complete_lines
      (concat [sse [answer_payload], sse [usage_payload] @ ''data: [DONE]''])) None =
      Some demo_usage"
    by code_simp
  from end_of_stream_without_sentinel [OF h, where parse = demo_parse_record
      and sink = sink_failing and mdl = "''m''" and log = "[]"] c u
  show ?thesis by simp
qed

section \<open>Properties of the conversation loop\<close>

lemma chatCompletion_messages:
  "messages (snd (chatCompletion E msgs mdl tools st)) = messages st"
  by (simp add: chatCompletion_def split: sum.splits option.splits)

lemma chatCompletion_requests:
  "requests (snd (chatCompletion E msgs mdl tools st)) =
     requests st @ [make_request msgs mdl tools False]"
  by (simp add: chatCompletion_def split: sum.splits option.splits)

lemma chatCompletion_printed:
  "printed (snd (chatCompletion E msgs mdl tools st)) = printed st"
  by (simp add: chatCompletion_def split: sum.splits option.splits)

lemma chatCompletionStream_messages:
  "messages (snd (chatCompletionStream E msgs mdl tools st)) = messages st"
  by (simp add: chatCompletionStream_def split: sum.splits option.splits prod.splits)

lemma dispatch_calls_requests:
  "requests (snd (dispatch_calls E c interactive calls st)) = requests st"
  by (induction calls arbitrary: st) (auto split: option.splits prod.splits)

lemma dispatch_calls_printed:
  "printed (snd (dispatch_calls E c interactive calls st)) = printed st"
  by (induction calls arbitrary: st) (auto split: option.splits prod.splits)

lemma dispatch_calls_append:
  "dispatch_calls E c interactive (xs @ ys) st =
     (case dispatch_calls E c interactive xs st of
        (Some e, st') \<Rightarrow> (Some e, st')
      | (None, st') \<Rightarrow> dispatch_calls E c interactive ys st')"
  by (induction xs arbitrary: st) (auto split: option.splits prod.splits)

lemma dispatch_calls_all_parse:
  "list_all (\<lambda>tc. parse_args E (arguments_text tc) \<noteq> None) calls \<Longrightarrow>
   fst (dispatch_calls E c interactive calls st) = None"
  by (induction calls arbitrary: st) (auto split: option.splits prod.splits)

text \<open>
  In \<open>nonStreamChat\<close> the follow-up comes after the loop over the tool calls: a first
  turn with tool calls that are all dispatched is followed by exactly one more request,
  for the same model and with no tools offered, and the content of its answer is what
  is written out.
\<close>

lemma nonStreamChat_one_followup:
  assumes "chatCompletion E (messages st) mdl (Some tools) st = (Inr response, st1)"
    and "tool_calls response = Some calls" and "calls \<noteq> []"
    and "dispatch_calls E (content response) interactive calls st1 = (None, st2)"
  shows "requests (snd (nonStreamChat E mdl tools interactive st)) =
      requests st @ [make_request (messages st) mdl (Some tools) False,
                     make_request (messages st2) mdl None False]"
    and "req_tools (make_request (messages st2) mdl None False) = None"
    and "req_model (make_request (messages st2) mdl None False) =
      req_model (make_request (messages st) mdl (Some tools) False)"
    and "chatCompletion E (messages st2) mdl None st2 = (Inr followUp, st3) \<Longrightarrow>
      nonStreamChat E mdl tools interactive st =
        (None, st3\<lparr>printed := printed st @ [content followUp]\<rparr>)"
proof -
  have r1: "requests st1 = requests st @ [make_request (messages st) mdl (Some tools) False]"
    using chatCompletion_requests [of E "messages st" mdl "Some tools" st] assms(1) by simp
  have r2: "requests st2 = requests st1"
    using dispatch_calls_requests [of E "content response" interactive calls st1] assms(4)
    by simp
  have p1: "printed st1 = printed st"
    using chatCompletion_printed [of E "messages st" mdl "Some tools" st] assms(1) by simp
  have p2: "printed st2 = printed st1"
    using dispatch_calls_printed [of E "content response" interactive calls st1] assms(4)
    by simp
  show "requests (snd (nonStreamChat E mdl tools interactive st)) =
      requests st @ [make_request (messages st) mdl (Some tools) False,
                     make_request (messages st2) mdl None False]"
    using assms r1 r2 chatCompletion_requests [of E "messages st2" mdl None st2]
    by (auto simp: nonStreamChat_def split: prod.splits sum.splits)
  show "req_tools (make_request (messages st2) mdl None False) = None"
    by (simp add: make_request_def)
  show "req_model (make_request (messages st2) mdl None False) =
      req_model (make_request (messages st) mdl (Some tools) False)"
    by (simp add: make_request_def)
  assume f: "chatCompletion E (messages st2) mdl None st2 = (Inr followUp, st3)"
  have p3: "printed st3 = printed st2"
    using chatCompletion_printed [of E "messages st2" mdl None st2] f by simp
  show "nonStreamChat E mdl tools interactive st =
        (None, st3\<lparr>printed := printed st @ [content followUp]\<rparr>)"
    using assms f p1 p2 p3 by (simp add: nonStreamChat_def)
qed

text \<open>
  C3. In \<open>streamChat\<close> the follow-up request is inside the body of the loop over the
  collected tool calls. A first turn that streams a batch of two tool calls is followed
  by two follow-up requests, one after each call, and both answers are written out: the
  requests of the exchange are the first one, with the tool offered, and two more
  without tools.
\<close>

theorem streamChat_followup_per_call:
  "map req_tools (requests (snd (streamChat (demo_env [call_1, call_2] sink_ok) ''m'' [''datetime''] False
      initial_state))) = [Some [''datetime''], None, None] \<and>
   printed (snd (streamChat (demo_env [call_1, call_2] sink_ok) ''m'' [''datetime''] False initial_state)) =
     [''It is noon.'', ''It is noon.''] \<and>
   fst (streamChat (demo_env [call_1, call_2] sink_ok) ''m'' [''datetime''] False initial_state) = None"
  by code_simp

text \<open>
  C2, as the claim states it, fails: a tool call whose arguments do not parse ends the
  exchange with the parser's error. No message is appended for the call and no
  follow-up request is sent.
\<close>

theorem parse_failure_counterexample:
  "fst (nonStreamChat (demo_env [bad_call] sink_ok) ''m'' [''datetime''] False initial_state) =
     Some (SyntaxError ''{not json'') \<and>
   messages (snd (nonStreamChat (demo_env [bad_call] sink_ok) ''m'' [''datetime''] False
     initial_state)) = [user_message] \<and>
   map req_tools (requests (snd (nonStreamChat (demo_env [bad_call] sink_ok) ''m''
     [''datetime''] False initial_state))) = [Some [''datetime'']] \<and>
   printed (snd (nonStreamChat (demo_env [bad_call] sink_ok) ''m'' [''datetime''] False
     initial_state)) = []"
  by code_simp

text \<open>
  C2, amended. \<open>JSON.parse\<close> on the arguments of a tool call is not guarded in either
  loop. When the loop reaches a call whose arguments do not parse, it throws the
  \<open>SyntaxError\<close> at once and leaves the state as it was: the calls before it keep
  their messages, this call gets none, the calls after it are not dispatched and no
  (further) follow-up is requested. For the first call of a batch this is the result of
  the whole exchange, in both modes.
\<close>

theorem parse_failure_aborts:
  assumes "parse_args E (arguments_text toolCall) = None"
  shows
    "(chatCompletion E (messages st) mdl (Some tools) st = (Inr response, st1) \<and>
      tool_calls response = Some (toolCall # rest) \<longrightarrow>
        nonStreamChat E mdl tools interactive st =
          (Some (SyntaxError (arguments_text toolCall)), st1) \<and>
        messages st1 = messages st \<and>
        requests st1 = requests st @ [make_request (messages st) mdl (Some tools) False]) \<and>
     (chatCompletionStream E (messages st) mdl (Some tools) st = ((err, chunks), st1) \<and>
      collect chunks [] [] [] = (True, fullContent, toolCall # rest, out) \<longrightarrow>
        streamChat E mdl tools interactive st =
          (Some (SyntaxError (arguments_text toolCall)), st1\<lparr>printed := printed st1 @ out\<rparr>) \<and>
        messages st1 = messages st) \<and>
     (list_all (\<lambda>tc. parse_args E (arguments_text tc) \<noteq> None) pre \<longrightarrow>
        dispatch_calls E c interactive (pre @ toolCall # rest) st =
          (Some (SyntaxError (arguments_text toolCall)),
           snd (dispatch_calls E c interactive pre st))) \<and>
     stream_calls E mdl c interactive (toolCall # rest) st =
       (Some (SyntaxError (arguments_text toolCall)), st)"
proof (intro conjI impI)
  assume a: "chatCompletion E (messages st) mdl (Some tools) st = (Inr response, st1) \<and>
      tool_calls response = Some (toolCall # rest)"
  with assms show "nonStreamChat E mdl tools interactive st =
          (Some (SyntaxError (arguments_text toolCall)), st1)"
    by (simp add: nonStreamChat_def)
  from a chatCompletion_messages [of E "messages st" mdl "Some tools" st]
  show "messages st1 = messages st" by simp
  from a chatCompletion_requests [of E "messages st" mdl "Some tools" st]
  show "requests st1 = requests st @ [make_request (messages st) mdl (Some tools) False]"
    by simp
next
  assume a: "chatCompletionStream E (messages st) mdl (Some tools) st = ((err, chunks), st1) \<and>
      collect chunks [] [] [] = (True, fullContent, toolCall # rest, out)"
  with assms show "streamChat E mdl tools interactive st =
          (Some (SyntaxError (arguments_text toolCall)), st1\<lparr>printed := printed st1 @ out\<rparr>)"
    by (simp add: streamChat_def)
  from a chatCompletionStream_messages [of E "messages st" mdl "Some tools" st]
  show "messages st1 = messages st" by simp
next
  assume "list_all (\<lambda>tc. parse_args E (arguments_text tc) \<noteq> None) pre"
  from dispatch_calls_all_parse [OF this, of c interactive st] assms
  show "dispatch_calls E c interactive (pre @ toolCall # rest) st =
          (Some (SyntaxError (arguments_text toolCall)),
           snd (dispatch_calls E c interactive pre st))"
    by (cases "dispatch_calls E c interactive pre st") (simp add: dispatch_calls_append)
next
  from assms show "stream_calls E mdl c interactive (toolCall # rest) st =
       (Some (SyntaxError (arguments_text toolCall)), st)"
    by simp
qed

theorem parse_failure_aborts_witness:
  "parse_args (demo_env [bad_call] sink_ok) (arguments_text bad_call) = None \<and>
   fst (nonStreamChat (demo_env [bad_call] sink_ok) ''m'' [''datetime''] False initial_state) =
     Some (SyntaxError ''{not json'') \<and>
   fst (streamChat (demo_env [bad_call] sink_ok) ''m'' [''datetime''] False initial_state) =
     Some (SyntaxError ''{not json'') \<and>
   dispatch_calls (demo_env [bad_call] sink_ok) [] False ([call_1] @ bad_call # [call_2])
      initial_state =
     (Some (SyntaxError ''{not json''),
      snd (dispatch_calls (demo_env [bad_call] sink_ok) [] False [call_1] initial_state)) \<and>
   stream_calls (demo_env [bad_call] sink_ok) ''m'' [] False [bad_call, call_2] initial_state =
     (Some (SyntaxError ''{not json''), initial_state)"
proof -
  let ?E = "demo_env [bad_call] sink_ok"
  let ?R = "\<lparr>content = [], tool_calls = Some (bad_call # []), usage = Some demo_usage,
      finish_reason = ''tool_calls''\<rparr>"
  let ?chunks = "[tool_calls_chunk [bad_call], done_chunk (Some demo_usage)]"
  have p: "parse_args ?E (arguments_text bad_call) = None"
    by code_simp
  have q: "list_all (\<lambda>tc. parse_args ?E (arguments_text tc) \<noteq> None) [call_1]"
    by code_simp
  have t: "arguments_text bad_call = ''{not json''"
    by code_simp
  have "fst (chatCompletion ?E (messages initial_state) ''m'' (Some [''datetime''])
      initial_state) = Inr ?R"
    by code_simp
  then obtain s1 where f: "chatCompletion ?E (messages initial_state) ''m''
      (Some [''datetime'']) initial_state = (Inr ?R, s1)"
    by (cases "chatCompletion ?E (messages initial_state) ''m'' (Some [''datetime''])
      initial_state") auto
  have "fst (chatCompletionStream ?E (messages initial_state) ''m'' (Some [''datetime''])
      initial_state) = (None, ?chunks)"
    by code_simp
  then obtain s2 where g: "chatCompletionStream ?E (messages initial_state) ''m''
      (Some [''datetime'']) initial_state = ((None, ?chunks), s2)"
    by (cases "chatCompletionStream ?E (messages initial_state) ''m'' (Some [''datetime''])
      initial_state") auto
  have h: "collect ?chunks [] [] [] = (True, [], bad_call # [], [])"
    by code_simp
  note inst = parse_failure_aborts [OF p, where pre = "[call_1]" and rest = "[call_2]"
      and c = "[]" and interactive = False and st = initial_state and mdl = "''m''"]
  note top = parse_failure_aborts [OF p, where rest = "[]" and interactive = False
      and st = initial_state and mdl = "''m''" and tools = "[''datetime'']"
      and response = ?R and ?st1.0 = s1, THEN conjunct1, THEN mp, OF conjI,
      THEN conjunct1]
  note str = parse_failure_aborts [OF p, where rest = "[]" and interactive = False
      and st = initial_state and mdl = "''m''" and tools = "[''datetime'']"
      and err = None and chunks = ?chunks and ?st1.0 = s2 and fullContent = "[]"
      and out = "[]", THEN conjunct2, THEN conjunct1, THEN mp, OF conjI, THEN conjunct1]
  have a: "fst (nonStreamChat ?E ''m'' [''datetime''] False initial_state) =
      Some (SyntaxError ''{not json'')"
    using top [OF f] t by simp
  have b: "fst (streamChat ?E ''m'' [''datetime''] False initial_state) =
      Some (SyntaxError ''{not json'')"
    using str [OF g h] t by simp
  have c: "dispatch_calls ?E [] False ([call_1] @ bad_call # [call_2]) initial_state =
     (Some (SyntaxError ''{not json''),
      snd (dispatch_calls ?E [] False [call_1] initial_state))"
    using inst [THEN conjunct2, THEN conjunct2, THEN conjunct1, THEN mp, OF q] t
    by simp
  have d: "stream_calls ?E ''m'' [] False [bad_call, call_2] initial_state =
     (Some (SyntaxError ''{not json''), initial_state)"
    using inst [THEN conjunct2, THEN conjunct2, THEN conjunct2] t by simp
  from p a b c d show ?thesis by blast
qed










text \<open>
  The condition on the collected entries is needed: \<open>streamChat\<close> does not merge the
  entries of one call. When a server opens the call with one delta entry and sends its
  arguments with a second one, both entries are dispatched, each with its pair of
  messages and its follow-up.
\<close>

lemma streamChat_two_entries:
  "fst (streamChat (demo_env [call_1_start, call_1] sink_ok) ''m'' [''datetime''] False
      initial_state) = None \<and>
   length (messages (snd (streamChat (demo_env [call_1_start, call_1] sink_ok) ''m''
      [''datetime''] False initial_state))) = 1 + 4 \<and>
   map req_tools (requests (snd (streamChat (demo_env [call_1_start, call_1] sink_ok) ''m''
      [''datetime''] False initial_state))) = [Some [''datetime''], None, None]"
  by code_simp

end
